theory Spec2Isabelle
  imports Main
begin

section \<open>The persisted schema\<close>

text \<open>
  The relations of \<^verbatim>\<open>src/lib/db/queries.ts\<close>. A \<^verbatim>\<open>Date\<close> is an integer (milliseconds since
  the epoch), an id is a string, the JSON columns (\<^verbatim>\<open>parts\<close>, \<^verbatim>\<open>attachments\<close>) are opaque
  strings. A table is the list of its rows in storage order: an insert appends, a select
  without \<^verbatim>\<open>orderBy\<close> returns the rows in that order.

  The schema module (\<^verbatim>\<open>./schema\<close>) is not among the sources; what the model takes from it
  is said where it is used (section ``Referential integrity'').
\<close>

datatype visibility = Private | Public

record chat =
  chat_id :: string
  chat_createdAt :: int
  chat_userId :: string
  chat_title :: string
  chat_visibility :: visibility

record dbmessage =
  message_id :: string
  message_chatId :: string
  message_role :: string
  message_parts :: string
  message_attachments :: string
  message_createdAt :: int

record vote =
  vote_chatId :: string
  vote_messageId :: string
  vote_isUpvoted :: bool

record document =
  document_id :: string
  document_createdAt :: int
  document_title :: string
  document_content :: string
  document_kind :: string
  document_userId :: string

record suggestion =
  suggestion_id :: string
  suggestion_documentId :: string
  suggestion_documentCreatedAt :: int
  suggestion_originalText :: string
  suggestion_suggestedText :: string
  suggestion_description :: string
  suggestion_isResolved :: bool
  suggestion_userId :: string
  suggestion_createdAt :: int

record db =
  db_chat :: "chat list"
  db_message :: "dbmessage list"
  db_vote :: "vote list"
  db_document :: "document list"
  db_suggestion :: "suggestion list"

text \<open>
  The errors thrown by the persistence layer: \<^verbatim>\<open>new Error(`Chat not found: ${chatId}`)\<close>,
  \<^verbatim>\<open>new Error('Unauthorized: User does not own this chat')\<close>,
  \<^verbatim>\<open>new Error(`Chat with id ${cursor} not found`)\<close>, and the error of the database driver
  when a statement violates a foreign key. Every \<^verbatim>\<open>catch\<close> block logs and rethrows, so the
  error reaches the caller unchanged.
\<close>

datatype error = ChatNotFound string | Unauthorized | CursorNotFound string | ForeignKeyViolation

datatype vote_type = Up | Down

section \<open>Referential integrity\<close>

text \<open>
  Modelled from the spec: the schema module \<^verbatim>\<open>./schema\<close>, which declares the keys and the
  foreign keys of the relations, is missing from the sources. The spec's data model gives a
  vote its chat and its message, a message its chat and a suggestion its document revision;
  it says that the dependent rows are deleted first ``to satisfy referential integrity'' and
  that cascading deletes are done by the application, not by the database. So: a vote row
  references the message with its \<^verbatim>\<open>messageId\<close> and the chat with its \<^verbatim>\<open>chatId\<close>, a message
  row references the chat with its \<^verbatim>\<open>chatId\<close>, a suggestion row references the document
  revision with its \<^verbatim>\<open>documentId\<close> and \<^verbatim>\<open>documentCreatedAt\<close>; a statement that would delete a
  row some other row still references fails as a whole and deletes nothing, and so does
  an insert of a row that references no row. Statements are not grouped in transactions:
  what an earlier statement of a function did stays done when a later one fails.
  The user relation and the foreign keys into it are outside the model.

  \<open>referenced doomed refs\<close>: some foreign-key value among \<open>refs\<close> is the key of a row
  in \<open>doomed\<close>.
\<close>

definition referenced :: "'k list \<Rightarrow> 'k list \<Rightarrow> bool" where
  "referenced doomed refs = (set refs \<inter> set doomed \<noteq> {})"

section \<open>Chats\<close>

text \<open>\<^verbatim>\<open>getChatById\<close>: \<^verbatim>\<open>where(and(eq(chat.id, id), eq(chat.userId, userId))).limit(1)\<close>,
  destructured to its first row or \<^verbatim>\<open>undefined\<close>.\<close>

definition getChatById :: "string \<Rightarrow> string \<Rightarrow> db \<Rightarrow> chat option" where
  "getChatById chatId userId d =
     find (\<lambda>c. chat_id c = chatId \<and> chat_userId c = userId) (db_chat d)"

text \<open>\<^verbatim>\<open>deleteChatById\<close>: three deletes in sequence, the votes with the chat id, the messages
  with the chat id, then the chat row. The message delete fails when a vote row that is
  left references one of the messages, the chat delete when a message or vote row that is
  left references the chat.\<close>

definition deleteChatById :: "string \<Rightarrow> db \<Rightarrow> (error + unit) \<times> db" where
  "deleteChatById chatId d =
     (let d1 = d\<lparr>db_vote := filter (\<lambda>v. vote_chatId v \<noteq> chatId) (db_vote d)\<rparr>
      in if referenced (map message_id (filter (\<lambda>m. message_chatId m = chatId) (db_message d1)))
              (map vote_messageId (db_vote d1))
         then (Inl ForeignKeyViolation, d1)
         else
           (let d2 = d1\<lparr>db_message := filter (\<lambda>m. message_chatId m \<noteq> chatId) (db_message d1)\<rparr>
            in if referenced (map chat_id (filter (\<lambda>c. chat_id c = chatId) (db_chat d2)))
                    (map message_chatId (db_message d2) @ map vote_chatId (db_vote d2))
               then (Inl ForeignKeyViolation, d2)
               else (Inr (), d2\<lparr>db_chat := filter (\<lambda>c. chat_id c \<noteq> chatId) (db_chat d2)\<rparr>)))"

text \<open>\<^verbatim>\<open>updateChatVisiblityById\<close>: update scoped by id and owner, returning the updated rows.\<close>

definition updateChatVisiblityById ::
  "string \<Rightarrow> visibility \<Rightarrow> string \<Rightarrow> db \<Rightarrow> chat list \<times> db" where
  "updateChatVisiblityById chatId vis userId d =
     (let hit = (\<lambda>c. chat_id c = chatId \<and> chat_userId c = userId)
      in (map (\<lambda>c. c\<lparr>chat_visibility := vis\<rparr>) (filter hit (db_chat d)),
          d\<lparr>db_chat := map (\<lambda>c. if hit c then c\<lparr>chat_visibility := vis\<rparr> else c) (db_chat d)\<rparr>))"

subsection \<open>Cursor pagination\<close>

text \<open>
  The optional \<^verbatim>\<open>whereCondition\<close> of the inner \<^verbatim>\<open>query\<close> is either
  \<^verbatim>\<open>gt(chat.createdAt, t)\<close> or \<^verbatim>\<open>lt(chat.createdAt, t)\<close>.
\<close>

datatype condition = Gt int | Lt int

fun holds :: "condition \<Rightarrow> chat \<Rightarrow> bool" where
  "holds (Gt t) c = (chat_createdAt c > t)"
| "holds (Lt t) c = (chat_createdAt c < t)"

text \<open>The \<^verbatim>\<open>where\<close> clause of \<^verbatim>\<open>query\<close>:
  \<^verbatim>\<open>whereCondition ? and(whereCondition, eq(chat.userId, id)) : eq(chat.userId, id)\<close>.\<close>

definition whereClause :: "string \<Rightarrow> condition option \<Rightarrow> chat \<Rightarrow> bool" where
  "whereClause userId whereCondition c =
     (case whereCondition of
        Some w \<Rightarrow> holds w c \<and> chat_userId c = userId
      | None \<Rightarrow> chat_userId c = userId)"

text \<open>\<^verbatim>\<open>orderBy(desc(col))\<close>, as a stable sort on the negated key; SQL leaves the order of
  rows with equal keys open, the model keeps their storage order.\<close>

definition orderBy_desc :: "('a \<Rightarrow> int) \<Rightarrow> 'a list \<Rightarrow> 'a list" where
  "orderBy_desc col rows = sort_key (\<lambda>r. - col r) rows"

text \<open>The rows the \<^verbatim>\<open>where\<close> clause selects, and the inner \<^verbatim>\<open>query\<close> with its
  \<^verbatim>\<open>limit(extendedLimit)\<close>. The \<^verbatim>\<open>limit\<close> argument is a non-negative integer here
  (a \<^verbatim>\<open>number\<close> in the source).\<close>

definition matching :: "string \<Rightarrow> condition option \<Rightarrow> db \<Rightarrow> chat list" where
  "matching userId whereCondition d = filter (whereClause userId whereCondition) (db_chat d)"

definition query :: "string \<Rightarrow> nat \<Rightarrow> condition option \<Rightarrow> db \<Rightarrow> chat list" where
  "query userId limit whereCondition d =
     (let extendedLimit = limit + 1
      in take extendedLimit (orderBy_desc chat_createdAt (matching userId whereCondition d)))"

text \<open>JavaScript truthiness of a \<^verbatim>\<open>string | null\<close>: \<^verbatim>\<open>null\<close> and the empty string are falsy.\<close>

fun truthy :: "string option \<Rightarrow> string option" where
  "truthy None = None"
| "truthy (Some s) = (if s = [] then None else Some s)"

record page =
  chats :: "chat list"
  hasMore :: bool

definition paginate :: "nat \<Rightarrow> chat list \<Rightarrow> page" where
  "paginate limit filteredChats =
     (let hasMore = length filteredChats > limit
      in \<lparr>chats = (if hasMore then take limit filteredChats else filteredChats),
          hasMore = hasMore\<rparr>)"

definition getChatsByUserId ::
  "string \<Rightarrow> nat \<Rightarrow> string option \<Rightarrow> string option \<Rightarrow> db \<Rightarrow> error + page" where
  "getChatsByUserId userId limit startingAfter endingBefore d =
     (case truthy startingAfter of
        Some sa \<Rightarrow>
          (case find (\<lambda>c. chat_id c = sa) (db_chat d) of
             None \<Rightarrow> Inl (CursorNotFound sa)
           | Some selectedChat \<Rightarrow>
               Inr (paginate limit (query userId limit (Some (Gt (chat_createdAt selectedChat))) d)))
      | None \<Rightarrow>
          (case truthy endingBefore of
             Some eb \<Rightarrow>
               (case find (\<lambda>c. chat_id c = eb) (db_chat d) of
                  None \<Rightarrow> Inl (CursorNotFound eb)
                | Some selectedChat \<Rightarrow>
                    Inr (paginate limit (query userId limit (Some (Lt (chat_createdAt selectedChat))) d)))
           | None \<Rightarrow> Inr (paginate limit (query userId limit None d))))"

text \<open>
  The page the spec describes, in the spec's words and without the query builder: of the
  chats of the user that satisfy the bound, \<open>fetched\<close> is the first \<open>N + 1\<close> in
  \<^verbatim>\<open>createdAt\<close>-descending order; the page holds the first \<open>N\<close> of them, so never more than
  \<open>N\<close> rows, in that order, and no row left out is newer than a row of the page;
  \<^verbatim>\<open>hasMore\<close> says whether a row beyond the \<open>N\<close>th exists.
\<close>

definition pagination_spec ::
  "string \<Rightarrow> nat \<Rightarrow> (chat \<Rightarrow> bool) \<Rightarrow> db \<Rightarrow> chat list \<Rightarrow> page \<Rightarrow> bool" where
  "pagination_spec userId N bound d fetched p =
     (let rows = filter (\<lambda>c. bound c \<and> chat_userId c = userId) (db_chat d)
      in fetched = take (N + 1) (sort_key (\<lambda>c. - chat_createdAt c) rows)
         \<and> length fetched \<le> N + 1
         \<and> chats p = take N (sort_key (\<lambda>c. - chat_createdAt c) rows)
         \<and> length (chats p) \<le> N
         \<and> length (chats p) = min N (length rows)
         \<and> sorted_wrt (\<lambda>a b. chat_createdAt a \<ge> chat_createdAt b) (chats p)
         \<and> set (chats p) \<subseteq> set rows
         \<and> (\<forall>c\<in>set rows. c \<notin> set (chats p) \<longrightarrow>
               (\<forall>c'\<in>set (chats p). chat_createdAt c \<le> chat_createdAt c'))
         \<and> (hasMore p \<longleftrightarrow> N < length rows))"

section \<open>Messages and votes\<close>

definition getMessagesByChatId :: "string \<Rightarrow> db \<Rightarrow> dbmessage list" where
  "getMessagesByChatId chatId d =
     sort_key message_createdAt (filter (\<lambda>m. message_chatId m = chatId) (db_message d))"

text \<open>\<^verbatim>\<open>getMessageById\<close>: the inner join of message and chat on \<^verbatim>\<open>message.chatId = chat.id\<close>,
  filtered by message id and chat owner, \<^verbatim>\<open>limit(1)\<close>, \<^verbatim>\<open>result[0]\<close>.\<close>

definition getMessageById :: "string \<Rightarrow> string \<Rightarrow> db \<Rightarrow> dbmessage option" where
  "getMessageById messageId userId d =
     (case concat (map (\<lambda>m. map (\<lambda>c. m)
                  (filter (\<lambda>c. message_chatId m = chat_id c \<and> message_id m = messageId \<and> chat_userId c = userId)
                     (db_chat d)))
             (db_message d)) of
        [] \<Rightarrow> None
      | m # _ \<Rightarrow> Some m)"

text \<open>\<^verbatim>\<open>voteMessage\<close>. The result is the outcome together with the database after the call;
  both throws happen before any write. The insert fails when no message has the id; the
  chat exists, and no vote row with the message id does, when it is reached.\<close>

definition voteMessage ::
  "string \<Rightarrow> string \<Rightarrow> vote_type \<Rightarrow> string \<Rightarrow> db \<Rightarrow> (error + unit) \<times> db" where
  "voteMessage chatId messageId type userId d =
     (case getChatById chatId userId d of
        None \<Rightarrow> (Inl (ChatNotFound chatId), d)
      | Some chatToVerify \<Rightarrow>
          if chat_userId chatToVerify \<noteq> userId then (Inl Unauthorized, d)
          else
            (case find (\<lambda>v. vote_messageId v = messageId) (db_vote d) of
               Some existingVote \<Rightarrow>
                 (Inr (),
                  d\<lparr>db_vote :=
                      map (\<lambda>v. if vote_messageId v = messageId \<and> vote_chatId v = chatId
                                then v\<lparr>vote_isUpvoted := (type = Up)\<rparr> else v)
                        (db_vote d)\<rparr>)
             | None \<Rightarrow>
                 if messageId \<in> set (map message_id (db_message d))
                 then
                   (Inr (),
                    d\<lparr>db_vote := db_vote d @
                        [\<lparr>vote_chatId = chatId, vote_messageId = messageId,
                          vote_isUpvoted = (type = Up)\<rparr>]\<rparr>)
                 else (Inl ForeignKeyViolation, d)))"

definition getVotesByChatId :: "string \<Rightarrow> db \<Rightarrow> vote list" where
  "getVotesByChatId chatId d = filter (\<lambda>v. vote_chatId v = chatId) (db_vote d)"

text \<open>\<^verbatim>\<open>deleteMessagesByChatIdAfterTimestamp\<close>: ownership check, then the select of the
  chat's messages with \<^verbatim>\<open>createdAt >= timestamp\<close> (\<^verbatim>\<open>messagesToDelete\<close>); when there are
  any, the votes of the chat on those ids are deleted, then the messages of the chat with
  those ids. The message delete fails when a vote row that is left references one of them.\<close>

definition messagesToDelete :: "string \<Rightarrow> int \<Rightarrow> db \<Rightarrow> dbmessage list" where
  "messagesToDelete chatId timestamp d =
     filter (\<lambda>m. message_chatId m = chatId \<and> message_createdAt m \<ge> timestamp) (db_message d)"

definition deleteMessagesByChatIdAfterTimestamp ::
  "string \<Rightarrow> int \<Rightarrow> string \<Rightarrow> db \<Rightarrow> (error + unit) \<times> db" where
  "deleteMessagesByChatIdAfterTimestamp chatId timestamp userId d =
     (case getChatById chatId userId d of
        None \<Rightarrow> (Inl (ChatNotFound chatId), d)
      | Some chatToVerify \<Rightarrow>
          if chat_userId chatToVerify \<noteq> userId then (Inl Unauthorized, d)
          else
            (let messageIds = map message_id (messagesToDelete chatId timestamp d)
             in if length messageIds > 0 then
                  (let d1 = d\<lparr>db_vote :=
                              filter (\<lambda>v. \<not> (vote_chatId v = chatId \<and> vote_messageId v \<in> set messageIds))
                                (db_vote d)\<rparr>
                   in if referenced
                           (map message_id
                              (filter (\<lambda>m. message_chatId m = chatId \<and> message_id m \<in> set messageIds)
                                 (db_message d1)))
                           (map vote_messageId (db_vote d1))
                      then (Inl ForeignKeyViolation, d1)
                      else
                        (Inr (),
                         d1\<lparr>db_message :=
                              filter (\<lambda>m. \<not> (message_chatId m = chatId \<and> message_id m \<in> set messageIds))
                                (db_message d1)\<rparr>))
                else (Inr (), d)))"

section \<open>Documents and suggestions\<close>

definition getDocumentsById :: "string list \<Rightarrow> string \<Rightarrow> db \<Rightarrow> document list" where
  "getDocumentsById ids userId d =
     orderBy_desc document_createdAt
       (filter (\<lambda>x. document_id x \<in> set ids \<and> document_userId x = userId) (db_document d))"

definition getDocumentById :: "string \<Rightarrow> string \<Rightarrow> db \<Rightarrow> document option" where
  "getDocumentById docId userId d =
     find (\<lambda>x. document_id x = docId \<and> document_userId x = userId) (db_document d)"

text \<open>\<^verbatim>\<open>deleteDocumentsByIdAfterTimestamp\<close>: the suggestions are deleted by document id and
  timestamp alone, then the document revisions by id, owner and timestamp,
  \<^verbatim>\<open>returning()\<close> the deleted revisions. Every suggestion that references a revision the
  second statement deletes has the document id and a later \<^verbatim>\<open>documentCreatedAt\<close>, so the
  first statement has deleted it: the second cannot fail on the foreign key.\<close>

definition deleteDocumentsByIdAfterTimestamp ::
  "string \<Rightarrow> int \<Rightarrow> string \<Rightarrow> db \<Rightarrow> document list \<times> db" where
  "deleteDocumentsByIdAfterTimestamp docId timestamp userId d =
     (let d1 = d\<lparr>db_suggestion :=
                  filter (\<lambda>s. \<not> (suggestion_documentId s = docId \<and> suggestion_documentCreatedAt s > timestamp))
                    (db_suggestion d)\<rparr>;
          hit = (\<lambda>x. document_id x = docId \<and> document_userId x = userId \<and> document_createdAt x > timestamp)
      in (filter hit (db_document d1),
          d1\<lparr>db_document := filter (\<lambda>x. \<not> hit x) (db_document d1)\<rparr>))"

definition getSuggestionsByDocumentId :: "string \<Rightarrow> string \<Rightarrow> db \<Rightarrow> suggestion list" where
  "getSuggestionsByDocumentId documentId userId d =
     (case getDocumentById documentId userId d of
        None \<Rightarrow> []
      | Some doc \<Rightarrow> filter (\<lambda>s. suggestion_documentId s = documentId) (db_suggestion d))"

section \<open>Example data\<close>

text \<open>Two users, a chat each, two messages in bob's chat; used to run the operations on
  concrete inputs.\<close>

definition chat_a :: chat where
  "chat_a = \<lparr>chat_id = ''cA'', chat_createdAt = 100, chat_userId = ''alice'',
              chat_title = ''A'', chat_visibility = Private\<rparr>"

definition chat_b :: chat where
  "chat_b = \<lparr>chat_id = ''cB'', chat_createdAt = 200, chat_userId = ''bob'',
              chat_title = ''B'', chat_visibility = Private\<rparr>"

definition msg_b1 :: dbmessage where
  "msg_b1 = \<lparr>message_id = ''m1'', message_chatId = ''cB'', message_role = ''user'',
              message_parts = ''hi'', message_attachments = [], message_createdAt = 210\<rparr>"

definition msg_b2 :: dbmessage where
  "msg_b2 = \<lparr>message_id = ''m2'', message_chatId = ''cB'', message_role = ''assistant'',
              message_parts = ''hello'', message_attachments = [], message_createdAt = 220\<rparr>"

definition ex_db :: db where
  "ex_db = \<lparr>db_chat = [chat_a, chat_b], db_message = [msg_b1, msg_b2], db_vote = [],
             db_document = [], db_suggestion = []\<rparr>"

definition chat_a2 :: chat where
  "chat_a2 = \<lparr>chat_id = ''cA2'', chat_createdAt = 300, chat_userId = ''alice'',
               chat_title = ''A2'', chat_visibility = Private\<rparr>"

definition chat_a3 :: chat where
  "chat_a3 = \<lparr>chat_id = ''cA3'', chat_createdAt = 50, chat_userId = ''alice'',
               chat_title = ''A3'', chat_visibility = Private\<rparr>"

definition ex_history :: db where
  "ex_history = \<lparr>db_chat = [chat_a, chat_b, chat_a2, chat_a3], db_message = [], db_vote = [],
                  db_document = [], db_suggestion = []\<rparr>"

definition doc_b :: document where
  "doc_b = \<lparr>document_id = ''d1'', document_createdAt = 300, document_title = ''Doc'',
             document_content = ''text'', document_kind = ''text'', document_userId = ''bob''\<rparr>"

definition sug_b :: suggestion where
  "sug_b = \<lparr>suggestion_id = ''s1'', suggestion_documentId = ''d1'',
             suggestion_documentCreatedAt = 300, suggestion_originalText = ''a'',
             suggestion_suggestedText = ''b'', suggestion_description = ''c'',
             suggestion_isResolved = False, suggestion_userId = ''bob'',
             suggestion_createdAt = 310\<rparr>"

definition ex_docs :: db where
  "ex_docs = \<lparr>db_chat = [], db_message = [], db_vote = [], db_document = [doc_b],
               db_suggestion = [sug_b]\<rparr>"

text \<open>A vote that alice casts under her own chat on a message id of bob's chat.\<close>

definition foreign_vote :: "string \<Rightarrow> vote" where
  "foreign_vote messageId =
     \<lparr>vote_chatId = ''cA'', vote_messageId = messageId, vote_isUpvoted = True\<rparr>"

definition vote_b1 :: vote where
  "vote_b1 = \<lparr>vote_chatId = ''cB'', vote_messageId = ''m1'', vote_isUpvoted = True\<rparr>"

lemmas ex_defs = ex_db_def chat_a_def chat_b_def msg_b1_def msg_b2_def chat_a2_def chat_a3_def
  ex_history_def doc_b_def sug_b_def ex_docs_def foreign_vote_def vote_b1_def

section \<open>Lookups by key\<close>

lemma find_distinct_key:
  assumes "distinct (map key xs)" and "x \<in> set xs"
  shows "find (\<lambda>y. key y = key x \<and> P y) xs = (if P x then Some x else None)"
  using assms
proof (induction xs)
  case Nil
  then show ?case by simp
next
  case (Cons a xs)
  then show ?case by (auto simp: find_None_iff image_iff)
qed

lemma getChatById_sound:
  "getChatById chatId userId d = Some c \<Longrightarrow>
     c \<in> set (db_chat d) \<and> chat_id c = chatId \<and> chat_userId c = userId"
  unfolding getChatById_def by (auto simp: find_Some_iff)

lemma getChatById_absent:
  "chatId \<notin> chat_id ` set (db_chat d) \<Longrightarrow> getChatById chatId userId d = None"
  unfolding getChatById_def by (auto simp: find_None_iff)

lemma getChatById_key:
  assumes "distinct (map chat_id (db_chat d))" and "c \<in> set (db_chat d)"
  shows "getChatById (chat_id c) u d = (if chat_userId c = u then Some c else None)"
  unfolding getChatById_def
  using find_distinct_key [OF assms, of "\<lambda>y. chat_userId y = u"] .

lemma distinct_key_eq:
  assumes "distinct (map key xs)" and "x \<in> set xs" and "y \<in> set xs" and "key x = key y"
  shows "x = y"
  using assms by (meson distinct_map inj_onD)

lemma find_key_distinct:
  assumes "distinct (map key xs)" and "x \<in> set xs"
  shows "find (\<lambda>y. key y = key x) xs = Some x"
  using find_distinct_key [OF assms, of "\<lambda>_. True"] by simp

lemma find_key_absent: "k \<notin> key ` set xs \<Longrightarrow> find (\<lambda>y. key y = k) xs = None"
  by (auto simp: find_None_iff)

lemma find_key_present: "k \<in> key ` set xs \<Longrightarrow> \<exists>x. find (\<lambda>y. key y = k) xs = Some x"
  by (cases "find (\<lambda>y. key y = k) xs") (auto simp: find_None_iff)

lemma getMessageById_absent:
  assumes "messageId \<notin> message_id ` set (db_message d)"
  shows "getMessageById messageId userId d = None"
proof -
  have e: "concat (map (\<lambda>m. map (\<lambda>c. m)
                  (filter (\<lambda>c. message_chatId m = chat_id c \<and> message_id m = messageId \<and> chat_userId c = userId)
                     (db_chat d)))
             (db_message d)) = []"
    using assms by (auto simp: filter_empty_conv)
  show ?thesis unfolding getMessageById_def e by simp
qed


section \<open>Ownership of chats\<close>

text \<open>
  C1. Chat ids being unique (the primary key), for a stored chat \<open>c\<close>:
  \<^verbatim>\<open>getChatById\<close> called with the id of \<open>c\<close> and a user other than the owner of \<open>c\<close> returns
  no record, exactly as it does for an id that no chat has; called with the owner it
  returns \<open>c\<close>; and whatever record it returns is a stored chat with the requested id
  whose owner is the requesting user.
\<close>

theorem getChatById_owner_only:
  assumes "distinct (map chat_id (db_chat d))" and "c \<in> set (db_chat d)"
  shows "(userId \<noteq> chat_userId c \<longrightarrow> getChatById (chat_id c) userId d = None)
       \<and> (userId = chat_userId c \<longrightarrow> getChatById (chat_id c) userId d = Some c)
       \<and> (\<forall>absent. absent \<notin> chat_id ` set (db_chat d) \<longrightarrow>
             getChatById absent userId d = None)
       \<and> (\<forall>chatId c'. getChatById chatId userId d = Some c' \<longrightarrow>
             c' \<in> set (db_chat d) \<and> chat_id c' = chatId \<and> chat_userId c' = userId)"
proof -
  note key = getChatById_key [OF assms]
  have a: "userId \<noteq> chat_userId c \<longrightarrow> getChatById (chat_id c) userId d = None"
    and b: "userId = chat_userId c \<longrightarrow> getChatById (chat_id c) userId d = Some c"
    by (simp_all add: key)
  have c: "\<forall>absent. absent \<notin> chat_id ` set (db_chat d) \<longrightarrow> getChatById absent userId d = None"
    using getChatById_absent by blast
  have e: "\<forall>chatId c'. getChatById chatId userId d = Some c' \<longrightarrow>
             c' \<in> set (db_chat d) \<and> chat_id c' = chatId \<and> chat_userId c' = userId"
    using getChatById_sound by blast
  from a b c e show ?thesis by blast
qed

theorem getChatById_owner_only_witness:
  "distinct (map chat_id (db_chat ex_db)) \<and> chat_b \<in> set (db_chat ex_db)
   \<and> ''alice'' \<noteq> chat_userId chat_b
   \<and> getChatById (chat_id chat_b) ''alice'' ex_db = None
   \<and> ''zz'' \<notin> chat_id ` set (db_chat ex_db)
   \<and> getChatById ''zz'' ''alice'' ex_db = None
   \<and> ''bob'' = chat_userId chat_b
   \<and> getChatById (chat_id chat_b) ''bob'' ex_db = Some chat_b"
proof -
  have h1: "distinct (map chat_id (db_chat ex_db))" by (simp add: ex_defs)
  have h2: "chat_b \<in> set (db_chat ex_db)" by (simp add: ex_defs)
  have h3: "''alice'' \<noteq> chat_userId chat_b" by (simp add: ex_defs)
  have h4: "''zz'' \<notin> chat_id ` set (db_chat ex_db)" by (simp add: ex_defs)
  have h5: "''bob'' = chat_userId chat_b" by (simp add: ex_defs)
  from getChatById_owner_only [OF h1 h2, of "''alice''"] h3 h4
  have r1: "getChatById (chat_id chat_b) ''alice'' ex_db = None"
    and r2: "getChatById ''zz'' ''alice'' ex_db = None" by blast+
  from getChatById_owner_only [OF h1 h2, of "''bob''"] h5
  have r3: "getChatById (chat_id chat_b) ''bob'' ex_db = Some chat_b" by blast
  from h1 h2 h3 h4 h5 r1 r2 r3 show ?thesis by blast
qed

section \<open>Pagination of the chat history\<close>

lemma matching_explicit:
  "matching userId None d = filter (\<lambda>c. True \<and> chat_userId c = userId) (db_chat d)"
  "matching userId (Some (Gt t)) d =
     filter (\<lambda>c. t < chat_createdAt c \<and> chat_userId c = userId) (db_chat d)"
  "matching userId (Some (Lt t)) d =
     filter (\<lambda>c. chat_createdAt c < t \<and> chat_userId c = userId) (db_chat d)"
  by (simp_all add: matching_def whereClause_def [abs_def])

lemma sorted_desc_sort_key:
  "sorted_wrt (\<lambda>a b. col a \<ge> col b) (sort_key (\<lambda>r. - col r) (rows :: 'a list))"
  for col :: "'a \<Rightarrow> int"
proof -
  have "sorted (map (\<lambda>r. - col r) (sort_key (\<lambda>r. - col r) rows))"
    by (rule sorted_sort_key)
  then show ?thesis by (simp add: sorted_map)
qed

lemma sorted_wrt_take_drop:
  assumes "sorted_wrt R xs" and "x \<in> set (take n xs)" and "y \<in> set (drop n xs)"
  shows "R x y"
proof -
  from assms(1) have "sorted_wrt R (take n xs @ drop n xs)" by simp
  with assms(2,3) show ?thesis unfolding sorted_wrt_append by blast
qed

lemma top_rows:
  fixes rows :: "chat list"
  assumes "c \<in> set rows"
      and "c \<notin> set (take N (sort_key (\<lambda>c. - chat_createdAt c) rows))"
      and "c' \<in> set (take N (sort_key (\<lambda>c. - chat_createdAt c) rows))"
  shows "chat_createdAt c \<le> chat_createdAt c'"
proof -
  let ?s = "sort_key (\<lambda>c. - chat_createdAt c) rows"
  from assms(1) have "c \<in> set (take N ?s @ drop N ?s)" by simp
  with assms(2) have "c \<in> set (drop N ?s)" by (simp only: set_append Un_iff) blast
  from sorted_wrt_take_drop [OF sorted_desc_sort_key assms(3) this]
  show ?thesis .
qed

lemma pagination_spec_query:
  assumes "matching userId w d = filter (\<lambda>c. bound c \<and> chat_userId c = userId) (db_chat d)"
  shows "pagination_spec userId N bound d (query userId N w d) (paginate N (query userId N w d))"
proof -
  let ?rows = "filter (\<lambda>c. bound c \<and> chat_userId c = userId) (db_chat d)"
  let ?s = "sort_key (\<lambda>c. - chat_createdAt c) ?rows"
  let ?p = "paginate N (take (N + 1) ?s)"
  have q: "query userId N w d = take (N + 1) ?s"
    by (simp add: query_def orderBy_desc_def assms Let_def)
  have c: "chats ?p = take N ?s"
    by (auto simp: paginate_def Let_def min_def take_all)
  have h: "hasMore ?p \<longleftrightarrow> N < length ?rows"
    by (auto simp: paginate_def Let_def)
  have 1: "length (take (N + 1) ?s) \<le> N + 1" by simp
  have 2: "length (take N ?s) \<le> N" by simp
  have 3: "length (take N ?s) = min N (length ?rows)" by (simp add: min.commute)
  have 4: "sorted_wrt (\<lambda>a b. chat_createdAt a \<ge> chat_createdAt b) (take N ?s)"
    by (rule sorted_wrt_take) (rule sorted_desc_sort_key)
  have 5: "set (take N ?s) \<subseteq> set ?rows"
    using set_take_subset [of N ?s] by simp
  have 6: "\<forall>c\<in>set ?rows. c \<notin> set (take N ?s) \<longrightarrow>
             (\<forall>c'\<in>set (take N ?s). chat_createdAt c \<le> chat_createdAt c')"
    using top_rows [of _ ?rows N] by blast
  from 1 2 3 4 5 6 h show ?thesis
    unfolding pagination_spec_def Let_def q c
    by (intro conjI refl)
qed


lemma getChatsByUserId_unfold:
  "getChatsByUserId userId N startingAfter endingBefore d =
     (case truthy startingAfter of
        Some s \<Rightarrow>
          (case find (\<lambda>c. chat_id c = s) (db_chat d) of
             None \<Rightarrow> Inl (CursorNotFound s)
           | Some sel \<Rightarrow> Inr (paginate N (query userId N (Some (Gt (chat_createdAt sel))) d)))
      | None \<Rightarrow>
          (case truthy endingBefore of
             Some s \<Rightarrow>
               (case find (\<lambda>c. chat_id c = s) (db_chat d) of
                  None \<Rightarrow> Inl (CursorNotFound s)
                | Some sel \<Rightarrow> Inr (paginate N (query userId N (Some (Lt (chat_createdAt sel))) d)))
           | None \<Rightarrow> Inr (paginate N (query userId N None d))))"
  by (simp add: getChatsByUserId_def)

lemma length_chats_paginate: "length (chats (paginate N fetched)) \<le> N"
  by (simp add: paginate_def Let_def)

text \<open>
  C3. For every user and limit \<open>N\<close>, \<^verbatim>\<open>getChatsByUserId\<close> returns a page in each of these
  cases, and the page is the one the spec describes (\<open>pagination_spec\<close>): without a cursor,
  for all chats of the user; with a truthy \<^verbatim>\<open>startingAfter\<close> whose row exists, for the user's
  chats created after that row; with a falsy \<^verbatim>\<open>startingAfter\<close> and a truthy \<^verbatim>\<open>endingBefore\<close>
  whose row exists, for the user's chats created before that row. In each case the query
  fetches the first \<open>N + 1\<close> of those rows in \<^verbatim>\<open>createdAt\<close>-descending order, the page holds
  the first \<open>N\<close> of them, and \<^verbatim>\<open>hasMore\<close> is true exactly when more than \<open>N\<close> of those rows
  exist. When the cursor row does not exist the call fails with the cursor-not-found
  error, and no page it ever returns has more than \<open>N\<close> chats.
\<close>

theorem getChatsByUserId_pagination:
  "(truthy startingAfter = None \<and> truthy endingBefore = None \<longrightarrow>
      (\<exists>p. getChatsByUserId userId N startingAfter endingBefore d = Inr p
         \<and> pagination_spec userId N (\<lambda>c. True) d (query userId N None d) p))
   \<and> (\<forall>s sel. truthy startingAfter = Some s
          \<and> find (\<lambda>c. chat_id c = s) (db_chat d) = Some sel \<longrightarrow>
      (\<exists>p. getChatsByUserId userId N startingAfter endingBefore d = Inr p
         \<and> pagination_spec userId N (\<lambda>c. chat_createdAt sel < chat_createdAt c) d
              (query userId N (Some (Gt (chat_createdAt sel))) d) p))
   \<and> (\<forall>s sel. truthy startingAfter = None \<and> truthy endingBefore = Some s
          \<and> find (\<lambda>c. chat_id c = s) (db_chat d) = Some sel \<longrightarrow>
      (\<exists>p. getChatsByUserId userId N startingAfter endingBefore d = Inr p
         \<and> pagination_spec userId N (\<lambda>c. chat_createdAt c < chat_createdAt sel) d
              (query userId N (Some (Lt (chat_createdAt sel))) d) p))
   \<and> (\<forall>s. (truthy startingAfter = Some s
             \<or> (truthy startingAfter = None \<and> truthy endingBefore = Some s))
          \<and> find (\<lambda>c. chat_id c = s) (db_chat d) = None \<longrightarrow>
        getChatsByUserId userId N startingAfter endingBefore d = Inl (CursorNotFound s))
   \<and> (\<forall>p. getChatsByUserId userId N startingAfter endingBefore d = Inr p \<longrightarrow>
        length (chats p) \<le> N)"
proof (intro conjI allI impI)
  assume "truthy startingAfter = None \<and> truthy endingBefore = None"
  then have "getChatsByUserId userId N startingAfter endingBefore d =
               Inr (paginate N (query userId N None d))"
    by (simp add: getChatsByUserId_unfold)
  then show "\<exists>p. getChatsByUserId userId N startingAfter endingBefore d = Inr p
         \<and> pagination_spec userId N (\<lambda>c. True) d (query userId N None d) p"
    using pagination_spec_query [OF matching_explicit(1), of userId N d] by simp
next
  fix s sel
  assume "truthy startingAfter = Some s \<and> find (\<lambda>c. chat_id c = s) (db_chat d) = Some sel"
  then have "getChatsByUserId userId N startingAfter endingBefore d =
               Inr (paginate N (query userId N (Some (Gt (chat_createdAt sel))) d))"
    by (simp add: getChatsByUserId_unfold)
  then show "\<exists>p. getChatsByUserId userId N startingAfter endingBefore d = Inr p
         \<and> pagination_spec userId N (\<lambda>c. chat_createdAt sel < chat_createdAt c) d
              (query userId N (Some (Gt (chat_createdAt sel))) d) p"
    using pagination_spec_query [OF matching_explicit(2), of userId N "chat_createdAt sel" d]
    by simp
next
  fix s sel
  assume "truthy startingAfter = None \<and> truthy endingBefore = Some s
          \<and> find (\<lambda>c. chat_id c = s) (db_chat d) = Some sel"
  then have "getChatsByUserId userId N startingAfter endingBefore d =
               Inr (paginate N (query userId N (Some (Lt (chat_createdAt sel))) d))"
    by (simp add: getChatsByUserId_unfold)
  then show "\<exists>p. getChatsByUserId userId N startingAfter endingBefore d = Inr p
         \<and> pagination_spec userId N (\<lambda>c. chat_createdAt c < chat_createdAt sel) d
              (query userId N (Some (Lt (chat_createdAt sel))) d) p"
    using pagination_spec_query [OF matching_explicit(3), of userId N "chat_createdAt sel" d]
    by simp
next
  fix s
  assume "(truthy startingAfter = Some s
             \<or> (truthy startingAfter = None \<and> truthy endingBefore = Some s))
          \<and> find (\<lambda>c. chat_id c = s) (db_chat d) = None"
  then show "getChatsByUserId userId N startingAfter endingBefore d = Inl (CursorNotFound s)"
    by (auto simp: getChatsByUserId_unfold)
next
  fix p
  assume "getChatsByUserId userId N startingAfter endingBefore d = Inr p"
  then obtain fetched where "p = paginate N fetched"
    by (auto simp: getChatsByUserId_unfold split: option.splits)
  then show "length (chats p) \<le> N" by (simp add: length_chats_paginate)
qed

theorem getChatsByUserId_pagination_witness:
  "truthy None = None \<and> truthy (Some ''cA2'') = Some ''cA2''
   \<and> find (\<lambda>c. chat_id c = ''cA2'') (db_chat ex_history) = Some chat_a2
   \<and> getChatsByUserId ''alice'' 1 None (Some ''cA2'') ex_history =
        Inr \<lparr>chats = [chat_a], hasMore = True\<rparr>
   \<and> [chat_a] =
       take 1 (sort_key (\<lambda>c. - chat_createdAt c)
         (filter (\<lambda>c. chat_createdAt c < chat_createdAt chat_a2 \<and> chat_userId c = ''alice'')
            (db_chat ex_history)))
   \<and> length [chat_a] \<le> (1::nat)
   \<and> 1 < length (filter (\<lambda>c. chat_createdAt c < chat_createdAt chat_a2 \<and> chat_userId c = ''alice'')
            (db_chat ex_history))
   \<and> getChatsByUserId ''alice'' 2 None None ex_history =
        Inr \<lparr>chats = [chat_a2, chat_a], hasMore = True\<rparr>"
proof -
  let ?rows = "filter (\<lambda>c. chat_createdAt c < chat_createdAt chat_a2 \<and> chat_userId c = ''alice'')
            (db_chat ex_history)"
  have t: "truthy None = None \<and> truthy (Some ''cA2'') = Some ''cA2''" by simp
  have f: "find (\<lambda>c. chat_id c = ''cA2'') (db_chat ex_history) = Some chat_a2"
    by (simp add: ex_defs)
  from getChatsByUserId_pagination [of None "Some ''cA2''" "''alice''" 1 ex_history] t f
  obtain p where p: "getChatsByUserId ''alice'' 1 None (Some ''cA2'') ex_history = Inr p"
    "pagination_spec ''alice'' 1 (\<lambda>c. chat_createdAt c < chat_createdAt chat_a2) ex_history
       (query ''alice'' 1 (Some (Lt (chat_createdAt chat_a2))) ex_history) p"
    by blast
  from p(2) have c: "chats p = take 1 (sort_key (\<lambda>c. - chat_createdAt c) ?rows)"
    and l: "length (chats p) \<le> 1" and h: "hasMore p \<longleftrightarrow> 1 < length ?rows"
    unfolding pagination_spec_def Let_def by blast+
  have e: "take 1 (sort_key (\<lambda>c. - chat_createdAt c) ?rows) = [chat_a]"
    and m: "1 < length ?rows"
    by (simp_all add: ex_defs)
  from c e have c': "chats p = [chat_a]" by simp
  from h m have h': "hasMore p = True" by simp
  from c' h' have "p = \<lparr>chats = [chat_a], hasMore = True\<rparr>" by (cases p) simp
  with p(1) have r1: "getChatsByUserId ''alice'' 1 None (Some ''cA2'') ex_history =
        Inr \<lparr>chats = [chat_a], hasMore = True\<rparr>" by simp
  from l c' have r2: "length [chat_a] \<le> (1::nat)" by simp
  have t0: "truthy None = None \<and> truthy None = None" by simp
  from getChatsByUserId_pagination [of None None "''alice''" 2 ex_history] t0
  obtain q where q: "getChatsByUserId ''alice'' 2 None None ex_history = Inr q"
    "pagination_spec ''alice'' 2 (\<lambda>c. True) ex_history (query ''alice'' 2 None ex_history) q"
    by blast
  from q(2) have "chats q = take 2 (sort_key (\<lambda>c. - chat_createdAt c)
                     (filter (\<lambda>c. True \<and> chat_userId c = ''alice'') (db_chat ex_history)))"
    and "hasMore q \<longleftrightarrow> 2 < length (filter (\<lambda>c. True \<and> chat_userId c = ''alice'') (db_chat ex_history))"
    unfolding pagination_spec_def Let_def by blast+
  then have "chats q = [chat_a2, chat_a]" and "hasMore q = True"
    by (simp_all add: ex_defs)
  then have "q = \<lparr>chats = [chat_a2, chat_a], hasMore = True\<rparr>" by (cases q) simp
  with q(1) have r3: "getChatsByUserId ''alice'' 2 None None ex_history =
        Inr \<lparr>chats = [chat_a2, chat_a], hasMore = True\<rparr>" by simp
  from t f r1 e [symmetric] r2 m r3 show ?thesis by blast
qed

text \<open>
  C10. A truthy cursor \<open>s\<close> (\<^verbatim>\<open>startingAfter\<close>, or \<^verbatim>\<open>endingBefore\<close> when \<^verbatim>\<open>startingAfter\<close> is
  falsy) is looked up by chat id alone: when no chat row has the id, the call fails with
  the cursor-not-found error; when some row has it, the call returns a page. For a stored
  row \<open>c\<close> with that id (ids being unique), whoever owns \<open>c\<close>, the \<^verbatim>\<open>createdAt\<close> of \<open>c\<close> is
  the bound of the page: every chat of the page belongs to the requesting user and was
  created after \<open>c\<close> (\<^verbatim>\<open>startingAfter\<close>) or before \<open>c\<close> (\<^verbatim>\<open>endingBefore\<close>), and the page is
  the one the spec describes for exactly the user's chats on that side of \<open>c\<close>.
\<close>

theorem getChatsByUserId_cursor_by_id_alone:
  assumes "truthy startingAfter = Some s
           \<or> (truthy startingAfter = None \<and> truthy endingBefore = Some s)"
  shows "(s \<notin> chat_id ` set (db_chat d) \<longrightarrow>
            getChatsByUserId userId N startingAfter endingBefore d = Inl (CursorNotFound s))
       \<and> (s \<in> chat_id ` set (db_chat d) \<longrightarrow>
            (\<exists>p. getChatsByUserId userId N startingAfter endingBefore d = Inr p))
       \<and> (\<forall>c. distinct (map chat_id (db_chat d)) \<and> c \<in> set (db_chat d) \<and> chat_id c = s \<longrightarrow>
            getChatsByUserId userId N startingAfter endingBefore d =
              Inr (paginate N (query userId N
                     (Some (if truthy startingAfter = Some s then Gt (chat_createdAt c)
                            else Lt (chat_createdAt c))) d))
            \<and> (\<exists>p. getChatsByUserId userId N startingAfter endingBefore d = Inr p
                  \<and> (\<forall>x\<in>set (chats p). chat_userId x = userId
                        \<and> (if truthy startingAfter = Some s
                            then chat_createdAt c < chat_createdAt x
                            else chat_createdAt x < chat_createdAt c))
                  \<and> chats p =
                      take N (sort_key (\<lambda>x. - chat_createdAt x)
                        (filter (\<lambda>x. (if truthy startingAfter = Some s
                                       then chat_createdAt c < chat_createdAt x
                                       else chat_createdAt x < chat_createdAt c)
                                      \<and> chat_userId x = userId) (db_chat d)))
                  \<and> (hasMore p \<longleftrightarrow>
                       N < length (filter (\<lambda>x. (if truthy startingAfter = Some s
                                       then chat_createdAt c < chat_createdAt x
                                       else chat_createdAt x < chat_createdAt c)
                                      \<and> chat_userId x = userId) (db_chat d)))))"
proof (intro conjI impI allI)
  assume "s \<notin> chat_id ` set (db_chat d)"
  then have "find (\<lambda>c. chat_id c = s) (db_chat d) = None"
    using find_key_absent [of s chat_id "db_chat d"] by blast
  with assms show "getChatsByUserId userId N startingAfter endingBefore d = Inl (CursorNotFound s)"
    unfolding getChatsByUserId_def by auto
next
  assume "s \<in> chat_id ` set (db_chat d)"
  then obtain x where "find (\<lambda>c. chat_id c = s) (db_chat d) = Some x"
    using find_key_present [of s chat_id "db_chat d"] by blast
  with assms show "\<exists>p. getChatsByUserId userId N startingAfter endingBefore d = Inr p"
    unfolding getChatsByUserId_def by auto
next
  fix c
  assume c: "distinct (map chat_id (db_chat d)) \<and> c \<in> set (db_chat d) \<and> chat_id c = s"
  then have "find (\<lambda>y. chat_id y = chat_id c) (db_chat d) = Some c"
    using find_key_distinct [of chat_id "db_chat d" c] by blast
  with c have f: "find (\<lambda>y. chat_id y = s) (db_chat d) = Some c" by simp
  let ?w = "Some (if truthy startingAfter = Some s then Gt (chat_createdAt c)
                  else Lt (chat_createdAt c))"
  let ?bound = "\<lambda>x. if truthy startingAfter = Some s
                      then chat_createdAt c < chat_createdAt x
                      else chat_createdAt x < chat_createdAt c"
  let ?rows = "filter (\<lambda>x. ?bound x \<and> chat_userId x = userId) (db_chat d)"
  let ?p = "paginate N (query userId N ?w d)"
  from f assms show r: "getChatsByUserId userId N startingAfter endingBefore d = Inr ?p"
    unfolding getChatsByUserId_def by auto
  have m: "matching userId ?w d = ?rows"
    by (simp add: matching_explicit)
  from pagination_spec_query [OF m, of N]
  have spec: "pagination_spec userId N ?bound d (query userId N ?w d) ?p" .
  then have 1: "chats ?p = take N (sort_key (\<lambda>x. - chat_createdAt x) ?rows)"
    and 2: "hasMore ?p \<longleftrightarrow> N < length ?rows"
    and 3: "set (chats ?p) \<subseteq> set ?rows"
    unfolding pagination_spec_def Let_def by blast+
  from 3 have 4: "\<forall>x\<in>set (chats ?p). chat_userId x = userId \<and> ?bound x" by auto
  from r 1 2 4
  show "\<exists>p. getChatsByUserId userId N startingAfter endingBefore d = Inr p
                  \<and> (\<forall>x\<in>set (chats p). chat_userId x = userId \<and> ?bound x)
                  \<and> chats p = take N (sort_key (\<lambda>x. - chat_createdAt x) ?rows)
                  \<and> (hasMore p \<longleftrightarrow> N < length ?rows)"
    by blast
qed


theorem getChatsByUserId_cursor_by_id_alone_witness:
  "truthy None = None \<and> truthy (Some ''cB'') = Some ''cB''
   \<and> distinct (map chat_id (db_chat ex_history)) \<and> chat_b \<in> set (db_chat ex_history)
   \<and> chat_id chat_b = ''cB'' \<and> chat_userId chat_b \<noteq> ''alice''
   \<and> chat_createdAt chat_b = 200
   \<and> getChatsByUserId ''alice'' 5 None (Some ''cB'') ex_history =
        Inr \<lparr>chats = [chat_a, chat_a3], hasMore = False\<rparr>
   \<and> chat_createdAt chat_a = 100 \<and> chat_createdAt chat_a3 = 50
   \<and> getChatsByUserId ''alice'' 5 (Some ''cB'') None ex_history =
        Inr \<lparr>chats = [chat_a2], hasMore = False\<rparr>
   \<and> chat_createdAt chat_a2 = 300
   \<and> ''zz'' \<notin> chat_id ` set (db_chat ex_history)
   \<and> getChatsByUserId ''alice'' 5 (Some ''zz'') None ex_history = Inl (CursorNotFound ''zz'')"
proof -
  have t1: "truthy None = None" and t2: "truthy (Some ''cB'') = Some ''cB''"
    and t3: "truthy (Some ''zz'') = Some ''zz''" by simp_all
  have h1: "distinct (map chat_id (db_chat ex_history))" by (simp add: ex_defs)
  have h2: "chat_b \<in> set (db_chat ex_history)" by (simp add: ex_defs)
  have h3: "chat_id chat_b = ''cB''" and h4: "chat_userId chat_b \<noteq> ''alice''"
    by (simp_all add: ex_defs)
  have h5: "''zz'' \<notin> chat_id ` set (db_chat ex_history)" by (simp add: ex_defs)
  have v: "chat_createdAt chat_b = 200" "chat_createdAt chat_a = 100"
    "chat_createdAt chat_a3 = 50" "chat_createdAt chat_a2 = 300"
    by (simp_all add: ex_defs)
  have a: "truthy None = Some ''cB'' \<or> (truthy None = None \<and> truthy (Some ''cB'') = Some ''cB'')"
    by simp
  have b: "truthy (Some ''cB'') = Some ''cB'' \<or> (truthy (Some ''cB'') = None \<and> truthy None = Some ''cB'')"
    by simp
  have z: "truthy (Some ''zz'') = Some ''zz'' \<or> (truthy (Some ''zz'') = None \<and> truthy None = Some ''zz'')"
    by simp
  from getChatsByUserId_cursor_by_id_alone [OF a, of ex_history "''alice''" 5] h1 h2 h3
  obtain p where p: "getChatsByUserId ''alice'' 5 None (Some ''cB'') ex_history = Inr p"
    "chats p = take 5 (sort_key (\<lambda>x. - chat_createdAt x)
        (filter (\<lambda>x. (if truthy None = Some ''cB''
                       then chat_createdAt chat_b < chat_createdAt x
                       else chat_createdAt x < chat_createdAt chat_b)
                      \<and> chat_userId x = ''alice'') (db_chat ex_history)))"
    "hasMore p \<longleftrightarrow> 5 < length (filter (\<lambda>x. (if truthy None = Some ''cB''
                       then chat_createdAt chat_b < chat_createdAt x
                       else chat_createdAt x < chat_createdAt chat_b)
                      \<and> chat_userId x = ''alice'') (db_chat ex_history))"
    by blast
  from p(2) have "chats p = [chat_a, chat_a3]" by (simp add: ex_defs)
  moreover from p(3) have "hasMore p = False" by (simp add: ex_defs)
  ultimately have "p = \<lparr>chats = [chat_a, chat_a3], hasMore = False\<rparr>" by (cases p) simp
  with p(1) have r1: "getChatsByUserId ''alice'' 5 None (Some ''cB'') ex_history =
        Inr \<lparr>chats = [chat_a, chat_a3], hasMore = False\<rparr>" by simp
  from getChatsByUserId_cursor_by_id_alone [OF b, of ex_history "''alice''" 5] h1 h2 h3
  obtain q where q: "getChatsByUserId ''alice'' 5 (Some ''cB'') None ex_history = Inr q"
    "chats q = take 5 (sort_key (\<lambda>x. - chat_createdAt x)
        (filter (\<lambda>x. (if truthy (Some ''cB'') = Some ''cB''
                       then chat_createdAt chat_b < chat_createdAt x
                       else chat_createdAt x < chat_createdAt chat_b)
                      \<and> chat_userId x = ''alice'') (db_chat ex_history)))"
    "hasMore q \<longleftrightarrow> 5 < length (filter (\<lambda>x. (if truthy (Some ''cB'') = Some ''cB''
                       then chat_createdAt chat_b < chat_createdAt x
                       else chat_createdAt x < chat_createdAt chat_b)
                      \<and> chat_userId x = ''alice'') (db_chat ex_history))"
    by blast
  from q(2) have "chats q = [chat_a2]" by (simp add: ex_defs)
  moreover from q(3) have "hasMore q = False" by (simp add: ex_defs)
  ultimately have "q = \<lparr>chats = [chat_a2], hasMore = False\<rparr>" by (cases q) simp
  with q(1) have r2: "getChatsByUserId ''alice'' 5 (Some ''cB'') None ex_history =
        Inr \<lparr>chats = [chat_a2], hasMore = False\<rparr>" by simp
  from getChatsByUserId_cursor_by_id_alone [OF z, of ex_history "''alice''" 5] h5
  have r3: "getChatsByUserId ''alice'' 5 (Some ''zz'') None ex_history = Inl (CursorNotFound ''zz'')"
    by blast
  from t1 t2 h1 h2 h3 h4 h5 v r1 r2 r3 show ?thesis by blast
qed

section \<open>Votes\<close>

text \<open>
  C4. The vote lookup of \<^verbatim>\<open>voteMessage\<close> is keyed by message id alone, the update by
  message id and chat id. Starting from a database without votes, alice votes under her
  chat \<open>cA\<close> on the message id \<open>m1\<close> (a message of bob's chat \<open>cB\<close>): the row is inserted.
  Bob, who owns \<open>cB\<close>, then votes up on \<open>(cB, m1)\<close> twice: both calls succeed, neither
  changes the database, and no vote row for \<open>(cB, m1)\<close> exists afterwards.
\<close>

theorem voteMessage_lost_vote:
  "voteMessage ''cA'' ''m1'' Up ''alice'' ex_db =
     (Inr (), ex_db\<lparr>db_vote := [foreign_vote ''m1'']\<rparr>)
   \<and> getChatById ''cB'' ''bob'' (ex_db\<lparr>db_vote := [foreign_vote ''m1'']\<rparr>) = Some chat_b
   \<and> voteMessage ''cB'' ''m1'' Up ''bob'' (ex_db\<lparr>db_vote := [foreign_vote ''m1'']\<rparr>) =
        (Inr (), ex_db\<lparr>db_vote := [foreign_vote ''m1'']\<rparr>)
   \<and> filter (\<lambda>v. vote_chatId v = ''cB'' \<and> vote_messageId v = ''m1'')
        (db_vote (snd (voteMessage ''cB'' ''m1'' Up ''bob''
           (snd (voteMessage ''cB'' ''m1'' Up ''bob''
              (ex_db\<lparr>db_vote := [foreign_vote ''m1'']\<rparr>)))))) = []"
  by (simp add: voteMessage_def getChatById_def ex_defs)

text \<open>
  C5, as the claim states it, fails: alice votes on a message of bob's chat; the call
  fails with the chat-not-found error, not with Unauthorized.
\<close>

theorem voteMessage_non_owner_counterexample:
  "chat_b \<in> set (db_chat ex_db) \<and> chat_userId chat_b \<noteq> ''alice''
   \<and> voteMessage (chat_id chat_b) ''m1'' Up ''alice'' ex_db = (Inl (ChatNotFound ''cB''), ex_db)
   \<and> fst (voteMessage (chat_id chat_b) ''m1'' Up ''alice'' ex_db) \<noteq> Inl Unauthorized"
  by (simp add: voteMessage_def getChatById_def ex_defs)

lemma voteMessage_never_Unauthorized:
  "fst (voteMessage chatId messageId type userId d) \<noteq> Inl Unauthorized"
  unfolding voteMessage_def
  by (auto split: option.splits dest: getChatById_sound)

text \<open>
  C5, amended. Chat ids being unique, for a stored chat \<open>c\<close> and a user other than its
  owner, \<^verbatim>\<open>voteMessage\<close> fails with the chat-not-found error (the error for an absent chat)
  and leaves the database as it was; and no call of \<^verbatim>\<open>voteMessage\<close> fails with Unauthorized.
\<close>

theorem voteMessage_non_owner:
  assumes "distinct (map chat_id (db_chat d))" and "c \<in> set (db_chat d)"
      and "userId \<noteq> chat_userId c"
  shows "voteMessage (chat_id c) messageId type userId d = (Inl (ChatNotFound (chat_id c)), d)
       \<and> fst (voteMessage chatId' messageId' type' userId' d') \<noteq> Inl Unauthorized"
proof -
  have "getChatById (chat_id c) userId d = None"
    using getChatById_key [OF assms(1,2), of userId] assms(3) by simp
  then have "voteMessage (chat_id c) messageId type userId d = (Inl (ChatNotFound (chat_id c)), d)"
    unfolding voteMessage_def by simp
  then show ?thesis using voteMessage_never_Unauthorized by blast
qed

theorem voteMessage_non_owner_witness:
  "distinct (map chat_id (db_chat ex_db)) \<and> chat_b \<in> set (db_chat ex_db)
   \<and> ''alice'' \<noteq> chat_userId chat_b
   \<and> voteMessage (chat_id chat_b) ''m2'' Down ''alice'' ex_db =
        (Inl (ChatNotFound (chat_id chat_b)), ex_db)"
proof -
  have h1: "distinct (map chat_id (db_chat ex_db))" by (simp add: ex_defs)
  have h2: "chat_b \<in> set (db_chat ex_db)" by (simp add: ex_defs)
  have h3: "''alice'' \<noteq> chat_userId chat_b" by (simp add: ex_defs)
  from voteMessage_non_owner [OF h1 h2 h3, of "''m2''" Down] h1 h2 h3
  show ?thesis by blast
qed

section \<open>Truncating and deleting a chat\<close>

text \<open>
  C6. Alice has voted under her chat \<open>cA\<close> on the message id \<open>m2\<close> of bob's chat \<open>cB\<close>
  (\<^verbatim>\<open>voteMessage\<close> inserts the row). Bob truncates \<open>cB\<close> from the timestamp of \<open>m2\<close>: the vote
  delete is scoped by the chat id and leaves alice's row, the message delete then fails on
  the foreign key, and \<open>m2\<close> is still there. With a vote of bob on \<open>m1\<close> as well and the
  truncation from the timestamp of \<open>m1\<close>, bob's vote is deleted, the call fails, and both
  messages are still there.
\<close>

theorem deleteMessages_foreign_vote_fails:
  "voteMessage ''cA'' ''m2'' Up ''alice'' ex_db =
     (Inr (), ex_db\<lparr>db_vote := [foreign_vote ''m2'']\<rparr>)
   \<and> getChatById ''cB'' ''bob'' (ex_db\<lparr>db_vote := [foreign_vote ''m2'']\<rparr>) = Some chat_b
   \<and> messagesToDelete ''cB'' 220 (ex_db\<lparr>db_vote := [foreign_vote ''m2'']\<rparr>) = [msg_b2]
   \<and> deleteMessagesByChatIdAfterTimestamp ''cB'' 220 ''bob''
        (ex_db\<lparr>db_vote := [foreign_vote ''m2'']\<rparr>) =
     (Inl ForeignKeyViolation, ex_db\<lparr>db_vote := [foreign_vote ''m2'']\<rparr>)
   \<and> db_message (ex_db\<lparr>db_vote := [foreign_vote ''m2'']\<rparr>) = [msg_b1, msg_b2]
   \<and> voteMessage ''cB'' ''m1'' Up ''bob'' (ex_db\<lparr>db_vote := [foreign_vote ''m2'']\<rparr>) =
     (Inr (), ex_db\<lparr>db_vote := [foreign_vote ''m2'', vote_b1]\<rparr>)
   \<and> deleteMessagesByChatIdAfterTimestamp ''cB'' 210 ''bob''
        (ex_db\<lparr>db_vote := [foreign_vote ''m2'', vote_b1]\<rparr>) =
     (Inl ForeignKeyViolation, ex_db\<lparr>db_vote := [foreign_vote ''m2'']\<rparr>)"
  by (simp add: voteMessage_def deleteMessagesByChatIdAfterTimestamp_def messagesToDelete_def
        getChatById_def referenced_def ex_defs Let_def del: set_filter)

text \<open>
  C7. In the same state (alice's vote under \<open>cA\<close> on \<open>m2\<close>, bob's vote on \<open>m1\<close>),
  \<^verbatim>\<open>deleteChatById\<close> of bob's chat deletes bob's vote, fails on the foreign key at the
  message delete, and leaves the chat and its messages: the lookup of \<open>m1\<close> still finds it.
\<close>

theorem deleteChatById_foreign_vote_fails:
  "voteMessage ''cA'' ''m2'' Up ''alice'' ex_db =
     (Inr (), ex_db\<lparr>db_vote := [foreign_vote ''m2'']\<rparr>)
   \<and> voteMessage ''cB'' ''m1'' Up ''bob'' (ex_db\<lparr>db_vote := [foreign_vote ''m2'']\<rparr>) =
     (Inr (), ex_db\<lparr>db_vote := [foreign_vote ''m2'', vote_b1]\<rparr>)
   \<and> deleteChatById ''cB'' (ex_db\<lparr>db_vote := [foreign_vote ''m2'', vote_b1]\<rparr>) =
     (Inl ForeignKeyViolation, ex_db\<lparr>db_vote := [foreign_vote ''m2'']\<rparr>)
   \<and> db_chat (ex_db\<lparr>db_vote := [foreign_vote ''m2'']\<rparr>) = [chat_a, chat_b]
   \<and> db_message (ex_db\<lparr>db_vote := [foreign_vote ''m2'']\<rparr>) = [msg_b1, msg_b2]
   \<and> getMessageById ''m1'' ''bob'' (ex_db\<lparr>db_vote := [foreign_vote ''m2'']\<rparr>) = Some msg_b1
   \<and> getChatById ''cB'' ''bob'' (ex_db\<lparr>db_vote := [foreign_vote ''m2'']\<rparr>) = Some chat_b"
  by (simp add: voteMessage_def deleteChatById_def getMessageById_def getChatById_def
        referenced_def ex_defs Let_def del: set_filter)

subsection \<open>When every vote on the chat's messages is recorded under the chat\<close>

lemma deleteChatById_votes:
  "db_vote (snd (deleteChatById chatId d)) = filter (\<lambda>v. vote_chatId v \<noteq> chatId) (db_vote d)"
  by (simp add: deleteChatById_def Let_def)

lemma deleteChatById_chat_unreferenced:
  "\<not> referenced (map chat_id (filter (\<lambda>c. chat_id c = chatId) cs))
       (map message_chatId (filter (\<lambda>m. message_chatId m \<noteq> chatId) ms)
        @ map vote_chatId (filter (\<lambda>v. vote_chatId v \<noteq> chatId) vs))"
  by (auto simp: referenced_def)

lemma deleteChatById_success:
  assumes "fst (deleteChatById chatId d) = Inr ()"
  shows "db_vote (snd (deleteChatById chatId d)) = filter (\<lambda>v. vote_chatId v \<noteq> chatId) (db_vote d)"
    and "db_message (snd (deleteChatById chatId d)) =
           filter (\<lambda>m. message_chatId m \<noteq> chatId) (db_message d)"
    and "db_chat (snd (deleteChatById chatId d)) = filter (\<lambda>c. chat_id c \<noteq> chatId) (db_chat d)"
    and "db_document (snd (deleteChatById chatId d)) = db_document d"
    and "db_suggestion (snd (deleteChatById chatId d)) = db_suggestion d"
  using assms deleteChatById_chat_unreferenced [of chatId "db_chat d" "db_message d" "db_vote d"]
  by (simp_all add: deleteChatById_def Let_def split: if_splits)

lemma deleteChatById_succeeds:
  assumes "\<forall>v\<in>set (db_vote d). \<forall>m\<in>set (db_message d).
             vote_messageId v = message_id m \<and> message_chatId m = chatId \<longrightarrow> vote_chatId v = chatId"
  shows "fst (deleteChatById chatId d) = Inr ()"
proof -
  have "\<not> referenced (map message_id (filter (\<lambda>m. message_chatId m = chatId) (db_message d)))
           (map vote_messageId (filter (\<lambda>v. vote_chatId v \<noteq> chatId) (db_vote d)))"
    using assms by (auto simp: referenced_def)
  then show ?thesis
    using deleteChatById_chat_unreferenced [of chatId "db_chat d" "db_message d" "db_vote d"]
    by (simp add: deleteChatById_def Let_def)
qed

lemma deleteChatById_messages_gone:
  assumes "fst (deleteChatById chatId d) = Inr ()"
      and "distinct (map message_id (db_message d))"
      and "m \<in> set (db_message d)" and "message_chatId m = chatId"
  shows "getMessageById (message_id m) userId (snd (deleteChatById chatId d)) = None"
proof -
  have "message_id m \<notin> message_id ` set (db_message (snd (deleteChatById chatId d)))"
  proof
    assume "message_id m \<in> message_id ` set (db_message (snd (deleteChatById chatId d)))"
    then obtain m' where m': "m' \<in> set (db_message d)" "message_chatId m' \<noteq> chatId"
        "message_id m' = message_id m"
      by (auto simp: deleteChatById_success(2) [OF assms(1)])
    from distinct_key_eq [OF assms(2) m'(1) assms(3) m'(3)] have "m' = m" .
    with m'(2) assms(4) show False by simp
  qed
  then show ?thesis by (rule getMessageById_absent)
qed

lemma deleteMessages_owner_unfold:
  assumes "getChatById chatId userId d = Some c"
  shows "deleteMessagesByChatIdAfterTimestamp chatId timestamp userId d =
     (if messagesToDelete chatId timestamp d \<noteq> [] then
        (let ids = message_id ` set (messagesToDelete chatId timestamp d);
             votes = filter (\<lambda>v. \<not> (vote_chatId v = chatId \<and> vote_messageId v \<in> ids)) (db_vote d)
         in if referenced
                 (map message_id
                    (filter (\<lambda>m. message_chatId m = chatId \<and> message_id m \<in> ids) (db_message d)))
                 (map vote_messageId votes)
            then (Inl ForeignKeyViolation, d\<lparr>db_vote := votes\<rparr>)
            else (Inr (),
                  d\<lparr>db_vote := votes,
                    db_message := filter (\<lambda>m. \<not> (message_chatId m = chatId \<and> message_id m \<in> ids))
                                    (db_message d)\<rparr>))
      else (Inr (), d))"
proof -
  have "chat_userId c = userId" using getChatById_sound [OF assms] by simp
  then show ?thesis
    unfolding deleteMessagesByChatIdAfterTimestamp_def
    by (simp add: assms Let_def)
qed

lemma messagesToDelete_filter:
  assumes "distinct (map message_id (db_message d))"
  shows "filter (\<lambda>m. \<not> (message_chatId m = chatId \<and>
            message_id m \<in> message_id ` set (messagesToDelete chatId timestamp d))) (db_message d)
       = filter (\<lambda>m. \<not> (message_chatId m = chatId \<and> timestamp \<le> message_createdAt m)) (db_message d)"
proof (rule filter_cong [OF refl])
  fix m assume m: "m \<in> set (db_message d)"
  have "message_id m \<in> message_id ` set (messagesToDelete chatId timestamp d)
        \<longleftrightarrow> message_chatId m = chatId \<and> timestamp \<le> message_createdAt m"
  proof
    assume "message_id m \<in> message_id ` set (messagesToDelete chatId timestamp d)"
    then obtain m' where m': "m' \<in> set (db_message d)" "message_chatId m' = chatId"
        "timestamp \<le> message_createdAt m'" "message_id m = message_id m'"
      by (auto simp: messagesToDelete_def)
    from distinct_key_eq [OF assms m m'(1) m'(4)] have "m = m'" .
    with m' show "message_chatId m = chatId \<and> timestamp \<le> message_createdAt m" by simp
  next
    assume "message_chatId m = chatId \<and> timestamp \<le> message_createdAt m"
    with m have "m \<in> set (messagesToDelete chatId timestamp d)"
      by (simp add: messagesToDelete_def)
    then show "message_id m \<in> message_id ` set (messagesToDelete chatId timestamp d)" by blast
  qed
  then show "(\<not> (message_chatId m = chatId \<and>
            message_id m \<in> message_id ` set (messagesToDelete chatId timestamp d)))
       = (\<not> (message_chatId m = chatId \<and> timestamp \<le> message_createdAt m))"
    by blast
qed

lemma deleteMessages_exact_when_votes_consistent:
  assumes "getChatById chatId userId d = Some c"
      and "distinct (map message_id (db_message d))"
      and "\<forall>v\<in>set (db_vote d).
             vote_messageId v \<in> message_id ` set (messagesToDelete chatId timestamp d) \<longrightarrow>
             vote_chatId v = chatId"
  shows "fst (deleteMessagesByChatIdAfterTimestamp chatId timestamp userId d) = Inr ()"
    and "db_message (snd (deleteMessagesByChatIdAfterTimestamp chatId timestamp userId d)) =
           filter (\<lambda>m. \<not> (message_chatId m = chatId \<and> timestamp \<le> message_createdAt m))
             (db_message d)"
    and "db_vote (snd (deleteMessagesByChatIdAfterTimestamp chatId timestamp userId d)) =
           filter (\<lambda>v. vote_messageId v \<notin> message_id ` set (messagesToDelete chatId timestamp d))
             (db_vote d)"
proof -
  let ?ids = "message_id ` set (messagesToDelete chatId timestamp d)"
  let ?votes = "filter (\<lambda>v. \<not> (vote_chatId v = chatId \<and> vote_messageId v \<in> ?ids)) (db_vote d)"
  have v: "?votes = filter (\<lambda>v. vote_messageId v \<notin> ?ids) (db_vote d)"
    using assms(3) by (auto intro: filter_cong)
  have nr: "\<not> referenced
                 (map message_id
                    (filter (\<lambda>m. message_chatId m = chatId \<and> message_id m \<in> ?ids) (db_message d)))
                 (map vote_messageId ?votes)"
    unfolding v by (auto simp: referenced_def)
  note u = deleteMessages_owner_unfold [OF assms(1), of timestamp]
  show "fst (deleteMessagesByChatIdAfterTimestamp chatId timestamp userId d) = Inr ()"
    using nr by (simp add: u Let_def)
  show "db_message (snd (deleteMessagesByChatIdAfterTimestamp chatId timestamp userId d)) =
           filter (\<lambda>m. \<not> (message_chatId m = chatId \<and> timestamp \<le> message_createdAt m))
             (db_message d)"
  proof (cases "messagesToDelete chatId timestamp d = []")
    case True
    have "filter (\<lambda>m. \<not> (message_chatId m = chatId \<and> timestamp \<le> message_createdAt m)) (db_message d)
          = db_message d"
      using messagesToDelete_filter [OF assms(2), of chatId timestamp] True by simp
    then show ?thesis using True by (simp add: u)
  next
    case False
    then show ?thesis
      using nr messagesToDelete_filter [OF assms(2), of chatId timestamp]
      by (simp add: u Let_def)
  qed
  show "db_vote (snd (deleteMessagesByChatIdAfterTimestamp chatId timestamp userId d)) =
           filter (\<lambda>v. vote_messageId v \<notin> ?ids) (db_vote d)"
  proof (cases "messagesToDelete chatId timestamp d = []")
    case True
    then show ?thesis by (simp add: u)
  next
    case False
    then show ?thesis using nr v by (simp add: u Let_def)
  qed
qed

section \<open>Reverting a document\<close>

text \<open>
  C8. Bob owns the document \<open>d1\<close> with one revision and one suggestion on it. Alice calls
  \<^verbatim>\<open>deleteDocumentsByIdAfterTimestamp\<close> on \<open>d1\<close>: no document revision is deleted, and bob's
  suggestion is.
\<close>

theorem deleteDocuments_non_owner_deletes_suggestions:
  "document_userId doc_b = ''bob'' \<and> db_document ex_docs = [doc_b]
   \<and> db_suggestion ex_docs = [sug_b]
   \<and> deleteDocumentsByIdAfterTimestamp ''d1'' 0 ''alice'' ex_docs =
        ([], ex_docs\<lparr>db_suggestion := []\<rparr>)
   \<and> db_document (snd (deleteDocumentsByIdAfterTimestamp ''d1'' 0 ''alice'' ex_docs)) = [doc_b]
   \<and> db_suggestion (snd (deleteDocumentsByIdAfterTimestamp ''d1'' 0 ''alice'' ex_docs)) = []"
  by (simp add: deleteDocumentsByIdAfterTimestamp_def ex_defs Let_def)

section \<open>Which functions are scoped by the user\<close>

text \<open>
  C2, as the claim states it, fails: \<^verbatim>\<open>getMessagesByChatId\<close>, \<^verbatim>\<open>getVotesByChatId\<close> and
  \<^verbatim>\<open>deleteChatById\<close> take a chat id and no user id; they read and delete the rows of bob's
  chat \<open>cB\<close> whoever calls them.
\<close>

theorem unscoped_persistence_functions:
  "chat_userId chat_b = ''bob''
   \<and> getMessagesByChatId ''cB'' ex_db = [msg_b1, msg_b2]
   \<and> getVotesByChatId ''cB'' (ex_db\<lparr>db_vote := [vote_b1]\<rparr>) = [vote_b1]
   \<and> fst (deleteChatById ''cB'' (ex_db\<lparr>db_vote := [vote_b1]\<rparr>)) = Inr ()
   \<and> db_chat (snd (deleteChatById ''cB'' (ex_db\<lparr>db_vote := [vote_b1]\<rparr>))) = [chat_a]
   \<and> db_message (snd (deleteChatById ''cB'' (ex_db\<lparr>db_vote := [vote_b1]\<rparr>))) = []
   \<and> db_vote (snd (deleteChatById ''cB'' (ex_db\<lparr>db_vote := [vote_b1]\<rparr>))) = []"
  by (simp add: getMessagesByChatId_def getVotesByChatId_def deleteChatById_def referenced_def
        ex_defs Let_def del: set_filter)

lemma getChatsByUserId_owned:
  assumes "getChatsByUserId userId N startingAfter endingBefore d = Inr p"
      and "c \<in> set (chats p)"
  shows "chat_userId c = userId"
proof -
  from assms(1) obtain w where p: "p = paginate N (query userId N w d)"
    by (auto simp: getChatsByUserId_unfold split: option.splits)
  have "set (chats (paginate N (query userId N w d))) \<subseteq> set (query userId N w d)"
    by (auto simp: paginate_def Let_def dest: in_set_takeD)
  moreover have "set (query userId N w d) \<subseteq> set (matching userId w d)"
    by (auto simp: query_def orderBy_desc_def Let_def dest: in_set_takeD)
  ultimately have "c \<in> set (matching userId w d)" using assms(2) p by blast
  then have "whereClause userId w c" by (simp add: matching_def)
  then show ?thesis by (auto simp: whereClause_def split: option.splits)
qed

lemma getMessageById_sound:
  assumes "getMessageById messageId userId d = Some m"
  shows "\<exists>c\<in>set (db_chat d). chat_id c = message_chatId m \<and> chat_userId c = userId"
proof -
  let ?rows = "concat (map (\<lambda>m. map (\<lambda>c. m)
                  (filter (\<lambda>c. message_chatId m = chat_id c \<and> message_id m = messageId \<and> chat_userId c = userId)
                     (db_chat d)))
             (db_message d))"
  from assms obtain rest where "?rows = m # rest"
    unfolding getMessageById_def by (auto split: list.splits)
  then have "m \<in> set ?rows" by simp
  then show ?thesis by auto
qed

lemma getDocumentById_sound:
  "getDocumentById docId userId d = Some x \<Longrightarrow> document_userId x = userId"
  unfolding getDocumentById_def by (auto simp: find_Some_iff)

lemma getDocumentsById_owned:
  "x \<in> set (getDocumentsById ids userId d) \<Longrightarrow> document_userId x = userId"
  unfolding getDocumentsById_def by (simp add: orderBy_desc_def)

lemma updateChatVisiblityById_scoped:
  "c \<in> set (fst (updateChatVisiblityById chatId vis userId d)) \<Longrightarrow> chat_userId c = userId"
  "filter (\<lambda>c. chat_userId c \<noteq> userId) (db_chat (snd (updateChatVisiblityById chatId vis userId d)))
     = filter (\<lambda>c. chat_userId c \<noteq> userId) (db_chat d)"
proof -
  show "c \<in> set (fst (updateChatVisiblityById chatId vis userId d)) \<Longrightarrow> chat_userId c = userId"
    unfolding updateChatVisiblityById_def Let_def by auto
  have "filter (\<lambda>c. chat_userId c \<noteq> userId)
          (map (\<lambda>c. if chat_id c = chatId \<and> chat_userId c = userId
                     then c\<lparr>chat_visibility := vis\<rparr> else c) xs)
        = filter (\<lambda>c. chat_userId c \<noteq> userId) xs" for xs
    by (induction xs) auto
  then show "filter (\<lambda>c. chat_userId c \<noteq> userId) (db_chat (snd (updateChatVisiblityById chatId vis userId d)))
     = filter (\<lambda>c. chat_userId c \<noteq> userId) (db_chat d)"
    unfolding updateChatVisiblityById_def Let_def by simp
qed

lemma deleteDocuments_scoped:
  "x \<in> set (fst (deleteDocumentsByIdAfterTimestamp docId timestamp userId d)) \<Longrightarrow>
     document_userId x = userId"
  "filter (\<lambda>x. document_userId x \<noteq> userId)
     (db_document (snd (deleteDocumentsByIdAfterTimestamp docId timestamp userId d)))
     = filter (\<lambda>x. document_userId x \<noteq> userId) (db_document d)"
  unfolding deleteDocumentsByIdAfterTimestamp_def Let_def
  by (auto intro: filter_cong)

lemma no_chat_no_write:
  assumes "getChatById chatId userId d = None"
  shows "voteMessage chatId messageId type userId d = (Inl (ChatNotFound chatId), d)"
    and "deleteMessagesByChatIdAfterTimestamp chatId timestamp userId d = (Inl (ChatNotFound chatId), d)"
  using assms by (simp_all add: voteMessage_def deleteMessagesByChatIdAfterTimestamp_def)

lemma getSuggestions_no_document:
  "getDocumentById docId userId d = None \<Longrightarrow> getSuggestionsByDocumentId docId userId d = []"
  by (simp add: getSuggestionsByDocumentId_def)

text \<open>
  C2, amended. The persistence functions that take a user id scope what they return or
  change by it: \<^verbatim>\<open>getChatById\<close>, \<^verbatim>\<open>getChatsByUserId\<close>, \<^verbatim>\<open>getDocumentById\<close> and
  \<^verbatim>\<open>getDocumentsById\<close> return only rows owned by the user, \<^verbatim>\<open>getMessageById\<close> only a message
  of a chat the user owns, \<^verbatim>\<open>getSuggestionsByDocumentId\<close> nothing when the user owns no
  revision of the document; \<^verbatim>\<open>voteMessage\<close> and \<^verbatim>\<open>deleteMessagesByChatIdAfterTimestamp\<close> fail
  and change nothing when \<^verbatim>\<open>getChatById\<close> finds no chat for the user;
  \<^verbatim>\<open>updateChatVisiblityById\<close> and the document delete of
  \<^verbatim>\<open>deleteDocumentsByIdAfterTimestamp\<close> return only rows of the user and leave the rows of
  other owners as they were. \<^verbatim>\<open>getVotesByChatId\<close>, \<^verbatim>\<open>getMessagesByChatId\<close> and
  \<^verbatim>\<open>deleteChatById\<close> have no user id and act on the rows with the chat id, whoever owns the
  chat: the first two return all of them, the third deletes all votes with the chat id
  and, when it succeeds, all messages with the chat id and the chat row.
\<close>

theorem persistence_scoped_by_userId:
  "(\<forall>c. getChatById chatId userId d = Some c \<longrightarrow> chat_userId c = userId)
   \<and> (\<forall>p. getChatsByUserId userId N startingAfter endingBefore d = Inr p \<longrightarrow>
          (\<forall>c\<in>set (chats p). chat_userId c = userId))
   \<and> (\<forall>m. getMessageById messageId userId d = Some m \<longrightarrow>
          (\<exists>c\<in>set (db_chat d). chat_id c = message_chatId m \<and> chat_userId c = userId))
   \<and> (\<forall>x. getDocumentById docId userId d = Some x \<longrightarrow> document_userId x = userId)
   \<and> (\<forall>x\<in>set (getDocumentsById ids userId d). document_userId x = userId)
   \<and> (getDocumentById docId userId d = None \<longrightarrow> getSuggestionsByDocumentId docId userId d = [])
   \<and> (getChatById chatId userId d = None \<longrightarrow>
          voteMessage chatId messageId type userId d = (Inl (ChatNotFound chatId), d)
          \<and> deleteMessagesByChatIdAfterTimestamp chatId timestamp userId d =
              (Inl (ChatNotFound chatId), d))
   \<and> (\<forall>c\<in>set (fst (updateChatVisiblityById chatId vis userId d)). chat_userId c = userId)
   \<and> filter (\<lambda>c. chat_userId c \<noteq> userId)
        (db_chat (snd (updateChatVisiblityById chatId vis userId d)))
      = filter (\<lambda>c. chat_userId c \<noteq> userId) (db_chat d)
   \<and> (\<forall>x\<in>set (fst (deleteDocumentsByIdAfterTimestamp docId timestamp userId d)).
          document_userId x = userId)
   \<and> filter (\<lambda>x. document_userId x \<noteq> userId)
        (db_document (snd (deleteDocumentsByIdAfterTimestamp docId timestamp userId d)))
      = filter (\<lambda>x. document_userId x \<noteq> userId) (db_document d)
   \<and> set (getVotesByChatId chatId d) = {v \<in> set (db_vote d). vote_chatId v = chatId}
   \<and> set (getMessagesByChatId chatId d) = {m \<in> set (db_message d). message_chatId m = chatId}
   \<and> db_vote (snd (deleteChatById chatId d)) = filter (\<lambda>v. vote_chatId v \<noteq> chatId) (db_vote d)
   \<and> (fst (deleteChatById chatId d) = Inr () \<longrightarrow>
         db_message (snd (deleteChatById chatId d)) =
           filter (\<lambda>m. message_chatId m \<noteq> chatId) (db_message d)
         \<and> db_chat (snd (deleteChatById chatId d)) =
           filter (\<lambda>c. chat_id c \<noteq> chatId) (db_chat d))"
proof -
  have 1: "\<forall>c. getChatById chatId userId d = Some c \<longrightarrow> chat_userId c = userId"
    using getChatById_sound by blast
  have 2: "\<forall>p. getChatsByUserId userId N startingAfter endingBefore d = Inr p \<longrightarrow>
          (\<forall>c\<in>set (chats p). chat_userId c = userId)"
    using getChatsByUserId_owned by blast
  have 3: "\<forall>m. getMessageById messageId userId d = Some m \<longrightarrow>
          (\<exists>c\<in>set (db_chat d). chat_id c = message_chatId m \<and> chat_userId c = userId)"
    using getMessageById_sound by blast
  have 4: "\<forall>x. getDocumentById docId userId d = Some x \<longrightarrow> document_userId x = userId"
    using getDocumentById_sound by blast
  have 5: "\<forall>x\<in>set (getDocumentsById ids userId d). document_userId x = userId"
    using getDocumentsById_owned by blast
  have 6: "getDocumentById docId userId d = None \<longrightarrow> getSuggestionsByDocumentId docId userId d = []"
    using getSuggestions_no_document by blast
  have 7: "getChatById chatId userId d = None \<longrightarrow>
          voteMessage chatId messageId type userId d = (Inl (ChatNotFound chatId), d)
          \<and> deleteMessagesByChatIdAfterTimestamp chatId timestamp userId d =
              (Inl (ChatNotFound chatId), d)"
    using no_chat_no_write by blast
  have 8: "\<forall>c\<in>set (fst (updateChatVisiblityById chatId vis userId d)). chat_userId c = userId"
    using updateChatVisiblityById_scoped(1) by blast
  have 9: "\<forall>x\<in>set (fst (deleteDocumentsByIdAfterTimestamp docId timestamp userId d)).
          document_userId x = userId"
    using deleteDocuments_scoped(1) by blast
  have 10: "set (getVotesByChatId chatId d) = {v \<in> set (db_vote d). vote_chatId v = chatId}"
    by (auto simp: getVotesByChatId_def)
  have 11: "set (getMessagesByChatId chatId d) = {m \<in> set (db_message d). message_chatId m = chatId}"
    by (auto simp: getMessagesByChatId_def)
  have 12: "fst (deleteChatById chatId d) = Inr () \<longrightarrow>
         db_message (snd (deleteChatById chatId d)) =
           filter (\<lambda>m. message_chatId m \<noteq> chatId) (db_message d)
         \<and> db_chat (snd (deleteChatById chatId d)) =
           filter (\<lambda>c. chat_id c \<noteq> chatId) (db_chat d)"
    using deleteChatById_success(2,3) by blast
  from 1 2 3 4 5 6 7 8 9 10 11 12
    updateChatVisiblityById_scoped(2) [of userId chatId vis d]
    deleteDocuments_scoped(2) [of userId docId timestamp d]
    deleteChatById_votes [of chatId d]
  show ?thesis by (intro conjI)
qed

theorem persistence_scoped_by_userId_witness:
  "getChatById ''cB'' ''bob'' ex_db = Some chat_b \<and> chat_userId chat_b = ''bob''
   \<and> getChatById ''cB'' ''alice'' ex_db = None
   \<and> voteMessage ''cB'' ''m1'' Up ''alice'' ex_db = (Inl (ChatNotFound ''cB''), ex_db)
   \<and> getDocumentById ''d1'' ''alice'' ex_docs = None
   \<and> getSuggestionsByDocumentId ''d1'' ''alice'' ex_docs = []
   \<and> getDocumentById ''d1'' ''bob'' ex_docs = Some doc_b \<and> document_userId doc_b = ''bob''
   \<and> fst (deleteChatById ''cB'' ex_db) = Inr ()
   \<and> db_chat (snd (deleteChatById ''cB'' ex_db)) = [chat_a]"
proof -
  have h1: "getChatById ''cB'' ''bob'' ex_db = Some chat_b"
    and h2: "getChatById ''cB'' ''alice'' ex_db = None"
    by (simp_all add: getChatById_def ex_defs)
  have h3: "getDocumentById ''d1'' ''alice'' ex_docs = None"
    and h4: "getDocumentById ''d1'' ''bob'' ex_docs = Some doc_b"
    by (simp_all add: getDocumentById_def ex_defs)
  have h5: "fst (deleteChatById ''cB'' ex_db) = Inr ()"
    by (simp add: deleteChatById_def referenced_def ex_defs Let_def del: set_filter)
  have h6: "filter (\<lambda>c. chat_id c \<noteq> ''cB'') (db_chat ex_db) = [chat_a]"
    by (simp add: ex_defs)
  from persistence_scoped_by_userId [of "''cB''" "''bob''" ex_db] h1
  have r1: "chat_userId chat_b = ''bob''" by blast
  from persistence_scoped_by_userId [of "''cB''" "''alice''" ex_db _ _ _ "''m1''" _ _ Up] h2
  have r2: "voteMessage ''cB'' ''m1'' Up ''alice'' ex_db = (Inl (ChatNotFound ''cB''), ex_db)"
    by blast
  from persistence_scoped_by_userId [of _ "''alice''" ex_docs _ _ _ _ "''d1''"] h3
  have r3: "getSuggestionsByDocumentId ''d1'' ''alice'' ex_docs = []" by blast
  from persistence_scoped_by_userId [of _ "''bob''" ex_docs _ _ _ _ "''d1''"] h4
  have r4: "document_userId doc_b = ''bob''" by blast
  from persistence_scoped_by_userId [of "''cB''" _ ex_db] h5
  have "db_chat (snd (deleteChatById ''cB'' ex_db)) =
          filter (\<lambda>c. chat_id c \<noteq> ''cB'') (db_chat ex_db)" by blast
  with h6 have r5: "db_chat (snd (deleteChatById ''cB'' ex_db)) = [chat_a]" by simp
  from h1 h2 h3 h4 h5 r1 r2 r3 r4 r5 show ?thesis by blast
qed

end
